theory Spec2Isabelle
  imports Complex_Main "HOL-Library.Multiset"
begin

section \<open>Values, objects and exceptions\<close>

text \<open>
  The program is Python glue over the GitLab REST API (package python-gitlab). Values that
  travel through it are JSON scalars; API objects (projects, users, commits) expose their
  JSON fields as attributes, and a diff entry is a dictionary with string keys. Both are
  finite maps from names to values: a missing attribute raises \<open>AttributeError\<close>, a
  missing key is what \<open>dict.get\<close> and \<open>in\<close> test for.
\<close>

datatype pyval = PNone | PBool bool | PInt int | PStr string

type_synonym obj = "string \<rightharpoonup> pyval"

type_synonym pydict = "string \<rightharpoonup> pyval"

text \<open>
  Exceptions are values. Every constructor stands for a subclass of Python's
  \<open>Exception\<close>, which is what every \<open>except Exception\<close> clause of the program catches.
\<close>

datatype exn =
    AttributeError string
  | TypeError string
  | ValueError string
  | OverflowError string
  | GitlabError string

fun exn_str :: "exn \<Rightarrow> string" where
  "exn_str (AttributeError m) = m"
| "exn_str (TypeError m) = m"
| "exn_str (ValueError m) = m"
| "exn_str (OverflowError m) = m"
| "exn_str (GitlabError m) = m"

definition getattr :: "obj \<Rightarrow> string \<Rightarrow> exn + pyval" where
  "getattr ob name = (case ob name of None \<Rightarrow> Inl (AttributeError name) | Some v \<Rightarrow> Inr v)"

definition getattr_default :: "obj \<Rightarrow> string \<Rightarrow> pyval \<Rightarrow> pyval" where
  "getattr_default ob name dflt = (case ob name of None \<Rightarrow> dflt | Some v \<Rightarrow> v)"

section \<open>filter_diff_data\<close>

text \<open>
  The body of the loop of \<open>filter_diff_data\<close>: a fresh dictionary with \<open>new_path\<close> and
  \<open>old_path\<close> read by \<open>dict.get\<close> with default \<open>''\<close>, and \<open>new_file\<close> copied only when
  the key is in the source entry.
\<close>

definition filtered_item :: "pydict \<Rightarrow> pydict" where
  "filtered_item diff_item =
     (let filtered =
            [''new_path'' \<mapsto> (case diff_item ''new_path'' of None \<Rightarrow> PStr [] | Some v \<Rightarrow> v),
             ''old_path'' \<mapsto> (case diff_item ''old_path'' of None \<Rightarrow> PStr [] | Some v \<Rightarrow> v)]
      in (case diff_item ''new_file'' of
            None \<Rightarrow> filtered
          | Some v \<Rightarrow> filtered(''new_file'' \<mapsto> v)))"

fun filter_diff_data :: "pydict list \<Rightarrow> pydict list" where
  "filter_diff_data [] = []"
| "filter_diff_data (diff_item # rest) = filtered_item diff_item # filter_diff_data rest"

section \<open>Dates and times\<close>

text \<open>
  The part of Python's \<open>datetime\<close> module the program uses. A \<open>datetime\<close> value is a day
  (its proleptic Gregorian ordinal, as \<open>date.toordinal()\<close> counts it: day 1 is 0001-01-01
  and day 3652059 is 9999-12-31), a time of day, and an optional offset from UTC in
  seconds. A value without offset is naive, one with an offset is aware.
\<close>

record datetime =
  ordinal :: int
  hour :: nat
  minute :: nat
  second :: nat
  microsecond :: nat
  utcoffset :: "int option"

definition MAXORDINAL :: int where
  "MAXORDINAL = 3652059"

text \<open>\<open>dt.replace(hour=0, minute=0, second=0, microsecond=0)\<close>\<close>

definition replace_midnight :: "datetime \<Rightarrow> datetime" where
  "replace_midnight dt = dt\<lparr>hour := 0, minute := 0, second := 0, microsecond := 0\<rparr>"

text \<open>\<open>datetime.timedelta(days=d)\<close>: the magnitude of the day count is at most 999999999.\<close>

definition timedelta_days :: "int \<Rightarrow> exn + int" where
  "timedelta_days d =
     (if \<bar>d\<bar> > 999999999 then Inl (OverflowError ''days must have magnitude <= 999999999'')
      else Inr d)"

text \<open>
  \<open>dt - timedelta(days=d)\<close>: the day moves, the time of day and the offset stay; a day
  outside 1..MAXORDINAL raises \<open>OverflowError\<close>.
\<close>

definition datetime_sub_days :: "datetime \<Rightarrow> int \<Rightarrow> exn + datetime" where
  "datetime_sub_days dt d =
     (let day = ordinal dt - d
      in if 0 < day \<and> day \<le> MAXORDINAL then Inr (dt\<lparr>ordinal := day\<rparr>)
         else Inl (OverflowError ''date value out of range''))"

text \<open>
  Comparison. Two naive values compare by day and time of day, two aware values by their
  UTC instants; comparing a naive with an aware value raises \<open>TypeError\<close>.
\<close>

definition micros :: "datetime \<Rightarrow> int" where
  "micros dt =
     (((ordinal dt * 24 + int (hour dt)) * 60 + int (minute dt)) * 60 + int (second dt)) * 1000000
       + int (microsecond dt)"

definition datetime_le :: "datetime \<Rightarrow> datetime \<Rightarrow> exn + bool" where
  "datetime_le a b =
     (case (utcoffset a, utcoffset b) of
        (None, None) \<Rightarrow> Inr (micros a \<le> micros b)
      | (Some oa, Some ob) \<Rightarrow> Inr (micros a - oa * 1000000 \<le> micros b - ob * 1000000)
      | _ \<Rightarrow> Inl (TypeError ''can't compare offset-naive and offset-aware datetimes''))"

text \<open>The calendar: from a day's ordinal to year, month and day, as CPython computes it.\<close>

definition is_leap :: "int \<Rightarrow> bool" where
  "is_leap y = (y mod 4 = 0 \<and> (y mod 100 \<noteq> 0 \<or> y mod 400 = 0))"

definition days_in_month :: "int \<Rightarrow> int \<Rightarrow> int" where
  "days_in_month y m =
     (if m = 2 then (if is_leap y then 29 else 28)
      else if m = 4 \<or> m = 6 \<or> m = 9 \<or> m = 11 then 30 else 31)"

definition days_before_year :: "int \<Rightarrow> int" where
  "days_before_year y = (y - 1) * 365 + (y - 1) div 4 - (y - 1) div 100 + (y - 1) div 400"

definition days_before_month :: "int \<Rightarrow> int \<Rightarrow> int" where
  "days_before_month y m = sum_list (map (days_in_month y) [1..m - 1])"

definition ymd2ord :: "int \<Rightarrow> int \<Rightarrow> int \<Rightarrow> int" where
  "ymd2ord y m d = days_before_year y + days_before_month y m + d"

definition ord2ymd :: "int \<Rightarrow> int \<times> int \<times> int" where
  "ord2ymd n =
     (let n0 = n - 1;
          n400 = n0 div 146097; r400 = n0 mod 146097;
          n100 = r400 div 36524; r100 = r400 mod 36524;
          n4 = r100 div 1461; r4 = r100 mod 1461;
          n1 = r4 div 365; r1 = r4 mod 365;
          year = n400 * 400 + 1 + n100 * 100 + n4 * 4 + n1
      in if n1 = 4 \<or> n100 = 4 then (year - 1, 12, 31)
         else
           (let month = (r1 + 50) div 32;
                preceding = days_before_month year month
            in if preceding > r1
               then (year, month - 1, r1 - (preceding - days_in_month year (month - 1)) + 1)
               else (year, month, r1 - preceding + 1)))"

text \<open>
  \<open>dt.isoformat()\<close>: \<open>YYYY-MM-DDTHH:MM:SS\<close>, then \<open>.ffffff\<close> when the microseconds are
  not zero, then the offset \<open>+HH:MM\<close> (with \<open>:SS\<close> when it has seconds) when the value is
  aware, and nothing when it is naive.
\<close>

definition digit :: "nat \<Rightarrow> char" where
  "digit n = ''0123456789'' ! (n mod 10)"

definition pad2 :: "nat \<Rightarrow> string" where
  "pad2 n = [digit (n div 10), digit n]"

definition pad4 :: "nat \<Rightarrow> string" where
  "pad4 n = [digit (n div 1000), digit (n div 100), digit (n div 10), digit n]"

definition pad6 :: "nat \<Rightarrow> string" where
  "pad6 n = [digit (n div 100000), digit (n div 10000), digit (n div 1000),
             digit (n div 100), digit (n div 10), digit n]"

definition format_offset :: "int \<Rightarrow> string" where
  "format_offset off =
     (let a = nat \<bar>off\<bar>
      in (if off < 0 then ''-'' else ''+'') @ pad2 (a div 3600) @ '':'' @ pad2 (a mod 3600 div 60)
           @ (if a mod 60 = 0 then [] else '':'' @ pad2 (a mod 60)))"

definition isoformat :: "datetime \<Rightarrow> string" where
  "isoformat dt =
     (case ord2ymd (ordinal dt) of
        (y, m, d) \<Rightarrow>
          pad4 (nat y) @ ''-'' @ pad2 (nat m) @ ''-'' @ pad2 (nat d) @ ''T''
            @ pad2 (hour dt) @ '':'' @ pad2 (minute dt) @ '':'' @ pad2 (second dt)
            @ (if microsecond dt = 0 then [] else ''.'' @ pad6 (microsecond dt))
            @ (case utcoffset dt of None \<Rightarrow> [] | Some off \<Rightarrow> format_offset off))"

text \<open>\<open>s.replace('Z', '+00:00')\<close>: every \<open>Z\<close> of the string is replaced.\<close>

definition replace_Z :: "string \<Rightarrow> string" where
  "replace_Z s = concat (map (\<lambda>c. if c = CHR ''Z'' then ''+00:00'' else [c]) s)"

section \<open>The GitLab client and the runtime\<close>

text \<open>
  The authenticated client \<open>gl\<close> of python-gitlab, as the calls the program makes on it.
  Every call returns its result or raises. Objects that the API returns are keyed by the
  identifiers the program passes back: \<open>gl.projects.get(project_id)\<close> gives the project
  handle, whose \<open>commits.list\<close>, \<open>commits.get\<close> and the commit's \<open>diff\<close> are the calls
  below with that \<open>project_id\<close> (and commit identifier) as first arguments.
  \<open>users_list_page page per_page\<close> also gives the \<open>total\<close> attribute of the returned
  list object, when it has one.
\<close>

record gitlab =
  user :: obj
  projects_list_all_visibility :: "exn + obj list"
  projects_list_all :: "exn + obj list"
  projects_list_page :: "int \<Rightarrow> exn + obj list"
  projects_get :: "pyval \<Rightarrow> exn + unit"
  commits_list_since_until :: "pyval \<Rightarrow> string \<Rightarrow> string \<Rightarrow> exn + obj list"
  commits_list_since :: "pyval \<Rightarrow> string \<Rightarrow> exn + obj list"
  commits_list_page :: "pyval \<Rightarrow> int \<Rightarrow> exn + obj list"
  commits_get :: "pyval \<Rightarrow> pyval \<Rightarrow> exn + unit"
  commit_diff :: "pyval \<Rightarrow> pyval \<Rightarrow> exn + pydict list"
  users_list_page :: "int \<Rightarrow> int \<Rightarrow> exn + obj list \<times> pyval option"
  users_list_all :: "exn + obj list"

text \<open>
  What the program reads from outside itself: the connection to a server
  (\<open>gitlab.Gitlab(url, private_token)\<close> followed by \<open>gl.auth()\<close>), the clock at its two
  readings (in \<open>get_today_commits\<close> and when the report is assembled), \<open>os.cpu_count()\<close>,
  \<open>datetime.fromisoformat\<close>, and the order in which the tasks of the two thread pools
  complete (a list of task indices). Printing and the progress bar are left out.
\<close>

record runtime =
  connect :: "string \<Rightarrow> string \<Rightarrow> exn + gitlab"
  now_fetch :: datetime
  now_report :: datetime
  cpu_count :: "int option"
  fromisoformat :: "string \<Rightarrow> exn + datetime"
  users_completion :: "nat \<Rightarrow> nat list"
  projects_completion :: "nat \<Rightarrow> nat list"

text \<open>\<open>datetime.datetime.now()\<close> has no time zone: its value is naive.\<close>

definition naive :: "datetime \<Rightarrow> datetime" where
  "naive dt = dt\<lparr>utcoffset := None\<rparr>"

text \<open>Sequencing of steps that may raise, and a comprehension whose body may raise.\<close>

definition bind_exn :: "exn + 'a \<Rightarrow> ('a \<Rightarrow> exn + 'b) \<Rightarrow> exn + 'b" where
  "bind_exn m f = (case m of Inl e \<Rightarrow> Inl e | Inr x \<Rightarrow> f x)"

fun map_exn :: "('a \<Rightarrow> exn + 'b) \<Rightarrow> 'a list \<Rightarrow> exn + 'b list" where
  "map_exn f [] = Inr []"
| "map_exn f (x # xs) =
     (case f x of
        Inl e \<Rightarrow> Inl e
      | Inr y \<Rightarrow> (case map_exn f xs of Inl e \<Rightarrow> Inl e | Inr ys \<Rightarrow> Inr (y # ys)))"

text \<open>
  \<open>concurrent.futures.as_completed\<close>: the results of the submitted tasks in the order of
  completion that the runtime gives.
\<close>

definition as_completed :: "nat list \<Rightarrow> 'a list \<Rightarrow> 'a list" where
  "as_completed order futures =
     concat (map (\<lambda>i. if i < length futures then [futures ! i] else []) order)"

text \<open>
  The size of a worker pool: \<open>threads\<close> when positive, else
  \<open>min(cap, os.cpu_count() * factor)\<close>, which raises \<open>TypeError\<close> when the CPU count is
  \<open>None\<close>; \<open>ThreadPoolExecutor\<close> raises \<open>ValueError\<close> for a size that is not positive.
\<close>

definition max_workers :: "runtime \<Rightarrow> int \<Rightarrow> int \<Rightarrow> int \<Rightarrow> exn + int" where
  "max_workers rt threads cap factor =
     (if threads \<le> 0
      then (case cpu_count rt of
              None \<Rightarrow> Inl (TypeError ''unsupported operand type(s) for *: NoneType and int'')
            | Some n \<Rightarrow> Inr (min cap (n * factor)))
      else Inr threads)"

definition ThreadPoolExecutor :: "int \<Rightarrow> exn + unit" where
  "ThreadPoolExecutor workers =
     (if workers \<le> 0 then Inl (ValueError ''max_workers must be greater than 0'') else Inr ())"

section \<open>get_gitlab_client\<close>

definition get_gitlab_client :: "runtime \<Rightarrow> string \<Rightarrow> string \<Rightarrow> bool \<Rightarrow> exn + gitlab" where
  "get_gitlab_client rt url token debug =
     (case connect rt url token of
        Inl e \<Rightarrow> Inl e
      | Inr gl \<Rightarrow>
          (if debug
           then (case getattr (user gl) ''username'' of Inl e \<Rightarrow> Inl e | Inr _ \<Rightarrow> Inr gl)
           else Inr gl))"

section \<open>get_all_projects\<close>

record project_info =
  p_id :: pyval
  p_name :: pyval
  p_path_with_namespace :: pyval
  p_visibility :: pyval
  p_web_url :: pyval

definition project_of :: "obj \<Rightarrow> exn + project_info" where
  "project_of project =
     bind_exn (getattr project ''id'') (\<lambda>i.
     bind_exn (getattr project ''name'') (\<lambda>n.
     bind_exn (getattr project ''path_with_namespace'') (\<lambda>pth.
     bind_exn (getattr project ''web_url'') (\<lambda>w.
       Inr \<lparr>p_id = i, p_name = n, p_path_with_namespace = pth,
            p_visibility = getattr_default project ''visibility'' (PStr ''unknown''),
            p_web_url = w\<rparr>))))"

text \<open>The manual pagination of \<open>get_all_projects\<close>: pages of 100, at most 100 pages.\<close>

function projects_pages :: "gitlab \<Rightarrow> int \<Rightarrow> obj list \<Rightarrow> exn + obj list" where
  "projects_pages gl page projects =
     (case projects_list_page gl page of
        Inl e \<Rightarrow> Inl e
      | Inr batch \<Rightarrow>
          (if batch = [] then Inr projects
           else if page + 1 > 100 then Inr (projects @ batch)
           else projects_pages gl (page + 1) (projects @ batch)))"
  by pat_completeness auto
termination
  by (relation "measure (\<lambda>(gl, page, projects). nat (101 - page))") auto

declare projects_pages.simps [simp del]

definition get_all_projects :: "gitlab \<Rightarrow> bool \<Rightarrow> project_info list" where
  "get_all_projects gl debug =
     (case (case projects_list_all_visibility gl of
              Inr projects \<Rightarrow> Inr projects
            | Inl e \<Rightarrow> projects_list_all gl) of
        Inl e \<Rightarrow> []
      | Inr projects \<Rightarrow>
          (case (if projects = [] then projects_pages gl 1 [] else Inr projects) of
             Inl e \<Rightarrow> []
           | Inr projects' \<Rightarrow>
               (case map_exn project_of projects' of
                  Inl e \<Rightarrow> []
                | Inr projects_list \<Rightarrow> projects_list)))"

section \<open>get_user_batch, get_all_users\<close>

record user_info =
  u_id :: pyval
  u_username :: pyval
  u_name :: pyval
  u_email :: pyval
  u_state :: pyval

definition user_of :: "obj \<Rightarrow> exn + user_info" where
  "user_of u =
     bind_exn (getattr u ''id'') (\<lambda>i.
     bind_exn (getattr u ''username'') (\<lambda>un.
     bind_exn (getattr u ''name'') (\<lambda>n.
       Inr \<lparr>u_id = i, u_username = un, u_name = n,
            u_email = getattr_default u ''email'' PNone,
            u_state = getattr_default u ''state'' (PStr ''unknown'')\<rparr>)))"

definition get_user_batch :: "gitlab \<Rightarrow> int \<Rightarrow> int \<Rightarrow> bool \<Rightarrow> user_info list" where
  "get_user_batch gl page per_page debug =
     (case users_list_page gl page per_page of
        Inl e \<Rightarrow> []
      | Inr (batch, tot) \<Rightarrow>
          (case map_exn user_of batch of Inl e \<Rightarrow> [] | Inr users \<Rightarrow> users))"

text \<open>The pagination of the sequential fallback: pages of 100, at most 50 pages.\<close>

function users_pages :: "gitlab \<Rightarrow> int \<Rightarrow> obj list \<Rightarrow> obj list" where
  "users_pages gl page users =
     (case users_list_page gl page 100 of
        Inl e \<Rightarrow> users
      | Inr (batch, tot) \<Rightarrow>
          (if batch = [] then users
           else if page + 1 > 50 then users @ batch
           else users_pages gl (page + 1) (users @ batch)))"
  by pat_completeness auto
termination
  by (relation "measure (\<lambda>(gl, page, users). nat (51 - page))") auto

declare users_pages.simps [simp del]

definition get_all_users_sequential :: "gitlab \<Rightarrow> bool \<Rightarrow> user_info list" where
  "get_all_users_sequential gl debug =
     (let users = (case users_list_all gl of
                     Inr users \<Rightarrow> users
                   | Inl e \<Rightarrow> users_pages gl 1 [])
      in (case map_exn user_of users of Inl e \<Rightarrow> [] | Inr result \<Rightarrow> result))"

text \<open>
  \<open>(first_page.total + 99) // 100\<close> when the first page has a \<open>total\<close>, else 20. A \<open>total\<close>
  that is not a number raises \<open>TypeError\<close>.
\<close>

definition total_pages_of :: "pyval option \<Rightarrow> exn + int" where
  "total_pages_of tot =
     (case tot of
        None \<Rightarrow> Inr 20
      | Some (PInt t) \<Rightarrow> Inr ((t + 99) div 100)
      | Some (PBool b) \<Rightarrow> Inr (((if b then 1 else 0) + 99) div 100)
      | Some _ \<Rightarrow> Inl (TypeError ''unsupported operand type(s) for +''))"

text \<open>
  The first part of \<open>get_all_users\<close>, up to the submission of the tasks: the pages for
  which one \<open>get_user_batch\<close> task each is submitted, \<open>range(1, total_pages + 1)\<close>.
\<close>

definition user_page_tasks :: "runtime \<Rightarrow> gitlab \<Rightarrow> int \<Rightarrow> exn + int list" where
  "user_page_tasks rt gl threads =
     (case users_list_page gl 1 20 of
        Inl e \<Rightarrow> Inl e
      | Inr (first_page, tot) \<Rightarrow>
          bind_exn (total_pages_of tot) (\<lambda>total_pages.
          bind_exn (max_workers rt threads 16 2) (\<lambda>workers.
          bind_exn (ThreadPoolExecutor workers) (\<lambda>executor.
            Inr [1..total_pages]))))"

definition get_all_users :: "runtime \<Rightarrow> gitlab \<Rightarrow> bool \<Rightarrow> int \<Rightarrow> user_info list" where
  "get_all_users rt gl debug threads =
     (case user_page_tasks rt gl threads of
        Inl e \<Rightarrow> get_all_users_sequential gl debug
      | Inr pages \<Rightarrow>
          (let futures = map (\<lambda>page. get_user_batch gl page 100 debug) pages;
               all_users = concat (as_completed (users_completion rt (length futures)) futures)
           in if all_users = [] then get_all_users_sequential gl debug else all_users))"

section \<open>get_project_commits\<close>

record commit_data =
  title :: pyval
  message :: pyval
  author_name :: pyval
  author_email :: pyval
  created_at :: pyval
  project_path :: pyval
  diff :: "pydict list"

text \<open>
  The test of the manual-pagination fallback on one commit of a batch: a commit without
  \<open>created_at\<close> is passed over; otherwise \<open>created_at.replace('Z', '+00:00')\<close> is parsed
  and the chained comparison \<open>start_date <= commit_date <= end_date\<close> decides. A value
  that is not a string has no \<open>replace\<close>; parsing and comparing may raise.
\<close>

definition in_window :: "runtime \<Rightarrow> datetime \<Rightarrow> datetime \<Rightarrow> obj \<Rightarrow> exn + bool" where
  "in_window rt start_date end_date commit =
     (case commit ''created_at'' of
        None \<Rightarrow> Inr False
      | Some (PStr s) \<Rightarrow>
          bind_exn (fromisoformat rt (replace_Z s)) (\<lambda>commit_date.
          bind_exn (datetime_le start_date commit_date) (\<lambda>lower.
            if lower then datetime_le commit_date end_date else Inr False))
      | Some _ \<Rightarrow> Inl (AttributeError ''replace''))"

text \<open>
  The inner \<open>for commit in batch\<close> loop. It appends to \<open>commits\<close> in place, so when a
  commit raises, the commits appended so far stay in the list: the result is the list and
  the exception that ended the loop, if any.
\<close>

fun scan_batch ::
  "runtime \<Rightarrow> datetime \<Rightarrow> datetime \<Rightarrow> obj list \<Rightarrow> obj list \<Rightarrow> obj list \<times> exn option" where
  "scan_batch rt start_date end_date commits [] = (commits, None)"
| "scan_batch rt start_date end_date commits (commit # batch) =
     (case in_window rt start_date end_date commit of
        Inl e \<Rightarrow> (commits, Some e)
      | Inr keep \<Rightarrow>
          scan_batch rt start_date end_date (if keep then commits @ [commit] else commits) batch)"

text \<open>
  The \<open>while True\<close> loop of the fallback, pages of 100, stopped after page 10, by an empty
  page, or by an exception (which the enclosing \<open>try\<close> swallows, keeping \<open>commits\<close>).
\<close>

function manual_pagination ::
  "runtime \<Rightarrow> gitlab \<Rightarrow> pyval \<Rightarrow> datetime \<Rightarrow> datetime \<Rightarrow> int \<Rightarrow> obj list \<Rightarrow> obj list" where
  "manual_pagination rt gl project_id start_date end_date page commits =
     (case commits_list_page gl project_id page of
        Inl e \<Rightarrow> commits
      | Inr batch \<Rightarrow>
          (if batch = [] then commits
           else (case scan_batch rt start_date end_date commits batch of
                   (commits', Some e) \<Rightarrow> commits'
                 | (commits', None) \<Rightarrow>
                     (if page + 1 > 10 then commits'
                      else manual_pagination rt gl project_id start_date end_date
                             (page + 1) commits'))))"
  by pat_completeness auto
termination
  by (relation "measure (\<lambda>(rt, gl, project_id, start_date, end_date, page, commits).
                           nat (11 - page))") auto

declare manual_pagination.simps [simp del]

text \<open>
  The three ways of listing the commits of a project, tried in order: with \<open>since\<close> and
  \<open>until\<close>, with \<open>since\<close> only, and the manual pagination with the client-side filter.
\<close>

definition select_commits ::
  "runtime \<Rightarrow> gitlab \<Rightarrow> pyval \<Rightarrow> datetime \<Rightarrow> datetime \<Rightarrow> obj list" where
  "select_commits rt gl project_id start_date end_date =
     (let since_str = isoformat start_date; until_str = isoformat end_date
      in (case commits_list_since_until gl project_id since_str until_str of
            Inr commits \<Rightarrow> commits
          | Inl e \<Rightarrow>
              (case commits_list_since gl project_id since_str of
                 Inr commits \<Rightarrow> commits
               | Inl inner_e \<Rightarrow>
                   manual_pagination rt gl project_id start_date end_date 1 [])))"

text \<open>
  The conversion of \<open>created_at\<close>. The variable is overwritten by the result of
  \<open>replace\<close> before the parse is tried, so after a failed parse it holds the replaced
  string.
\<close>

definition normalize_created_at :: "runtime \<Rightarrow> pyval \<Rightarrow> pyval" where
  "normalize_created_at rt v =
     (case v of
        PStr s \<Rightarrow>
          (let replaced = replace_Z s
           in (case fromisoformat rt replaced of
                 Inl e \<Rightarrow> PStr replaced
               | Inr dt \<Rightarrow> PStr (isoformat dt)))
      | _ \<Rightarrow> v)"

text \<open>The body of the \<open>try\<close> of the per-commit loop, up to the dictionary \<open>commit_data\<close>.\<close>

definition commit_record :: "runtime \<Rightarrow> gitlab \<Rightarrow> project_info \<Rightarrow> obj \<Rightarrow> exn + commit_data" where
  "commit_record rt gl project commit =
     bind_exn (getattr commit ''id'') (\<lambda>commit_id.
     bind_exn (commits_get gl (p_id project) commit_id) (\<lambda>full_commit.
       (let diff_list = (case commit_diff gl (p_id project) commit_id of
                           Inl diff_e \<Rightarrow> []
                         | Inr raw_diff \<Rightarrow> filter_diff_data raw_diff)
        in bind_exn (getattr commit ''created_at'') (\<lambda>c_at.
           bind_exn (getattr commit ''title'') (\<lambda>t.
           bind_exn (getattr commit ''message'') (\<lambda>m.
           bind_exn (getattr commit ''author_name'') (\<lambda>an.
           bind_exn (getattr commit ''author_email'') (\<lambda>ae.
             Inr \<lparr>title = t, message = m, author_name = an, author_email = ae,
                  created_at = normalize_created_at rt c_at,
                  project_path = p_path_with_namespace project,
                  diff = diff_list\<rparr>))))))))"

text \<open>
  The \<open>except\<close> clause of the per-commit loop prints \<open>commit.id\<close>: for a commit without
  \<open>id\<close> the clause itself raises, which ends the loop (the outer \<open>except\<close> of the function
  catches it) with the records appended so far.
\<close>

definition commit_handler :: "obj \<Rightarrow> exn + unit" where
  "commit_handler commit = bind_exn (getattr commit ''id'') (\<lambda>_. Inr ())"

fun process_commits ::
  "runtime \<Rightarrow> gitlab \<Rightarrow> project_info \<Rightarrow> bool \<Rightarrow> obj list \<Rightarrow> commit_data list \<Rightarrow> commit_data list"
  where
  "process_commits rt gl project debug [] project_commits = project_commits"
| "process_commits rt gl project debug (commit # commits) project_commits =
     (case commit_record rt gl project commit of
        Inr data \<Rightarrow>
          (if debug
           then (case getattr commit ''short_id'' of
                   Inr _ \<Rightarrow> process_commits rt gl project debug commits (project_commits @ [data])
                 | Inl e \<Rightarrow>
                     (case commit_handler commit of
                        Inr _ \<Rightarrow>
                          process_commits rt gl project debug commits (project_commits @ [data])
                      | Inl e' \<Rightarrow> project_commits @ [data]))
           else process_commits rt gl project debug commits (project_commits @ [data]))
      | Inl e \<Rightarrow>
          (case commit_handler commit of
             Inr _ \<Rightarrow> process_commits rt gl project debug commits project_commits
           | Inl e' \<Rightarrow> project_commits))"

definition get_project_commits ::
  "runtime \<Rightarrow> project_info \<Rightarrow> gitlab \<Rightarrow> datetime \<Rightarrow> datetime \<Rightarrow> bool \<Rightarrow> commit_data list" where
  "get_project_commits rt project gl start_date end_date debug =
     (case projects_get gl (p_id project) of
        Inl e \<Rightarrow> []
      | Inr _ \<Rightarrow>
          process_commits rt gl project debug
            (select_commits rt gl (p_id project) start_date end_date) [])"

section \<open>get_today_commits\<close>

text \<open>
  The date range: \<open>end_date = now()\<close> and
  \<open>start_date = end_date.replace(hour=0, minute=0, second=0, microsecond=0)
     - timedelta(days=days-1)\<close>.
\<close>

definition date_range :: "runtime \<Rightarrow> int \<Rightarrow> exn + datetime \<times> datetime" where
  "date_range rt days =
     (let end_date = naive (now_fetch rt)
      in bind_exn (timedelta_days (days - 1)) (\<lambda>delta.
         bind_exn (datetime_sub_days (replace_midnight end_date) delta) (\<lambda>start_date.
           Inr (start_date, end_date))))"

definition get_today_commits ::
  "runtime \<Rightarrow> gitlab \<Rightarrow> project_info list \<Rightarrow> int \<Rightarrow> bool \<Rightarrow> int \<Rightarrow> exn + commit_data list" where
  "get_today_commits rt gl projects days debug threads =
     bind_exn (date_range rt days) (\<lambda>(start_date, end_date).
     bind_exn (max_workers rt threads 32 4) (\<lambda>workers.
     bind_exn (ThreadPoolExecutor workers) (\<lambda>executor.
       (let futures = map (\<lambda>project. get_project_commits rt project gl start_date end_date debug)
                        projects
        in Inr (concat (as_completed (projects_completion rt (length futures)) futures))))))"

section \<open>get_commits_data\<close>

record report =
  metadata :: "string \<rightharpoonup> pyval"
  commits :: "commit_data list"

text \<open>The body of the \<open>try\<close> of \<open>get_commits_data\<close>.\<close>

definition get_commits_data_try ::
  "runtime \<Rightarrow> string \<Rightarrow> string \<Rightarrow> int \<Rightarrow> bool \<Rightarrow> int \<Rightarrow> exn + report" where
  "get_commits_data_try rt gitlab_url admin_token days debug threads =
     bind_exn (get_gitlab_client rt gitlab_url admin_token debug) (\<lambda>gl.
       (let projects = get_all_projects gl debug;
            users = get_all_users rt gl debug threads
        in bind_exn (get_today_commits rt gl projects days debug threads) (\<lambda>cs.
             Inr \<lparr>metadata =
                    [''date'' \<mapsto> PStr (isoformat (naive (now_report rt))),
                     ''gitlab_url'' \<mapsto> PStr gitlab_url,
                     ''days_included'' \<mapsto> PInt days,
                     ''projects_count'' \<mapsto> PInt (int (length projects)),
                     ''users_count'' \<mapsto> PInt (int (length users)),
                     ''commits_count'' \<mapsto> PInt (int (length cs))],
                  commits = cs\<rparr>)))"

text \<open>
  The whole function: the \<open>except Exception\<close> clause turns any exception of the body into
  the error structure and returns it.
\<close>

definition get_commits_data ::
  "runtime \<Rightarrow> string \<Rightarrow> string \<Rightarrow> int \<Rightarrow> bool \<Rightarrow> int \<Rightarrow> exn + report" where
  "get_commits_data rt gitlab_url admin_token days debug threads =
     (case get_commits_data_try rt gitlab_url admin_token days debug threads of
        Inr data \<Rightarrow> Inr data
      | Inl e \<Rightarrow>
          (let error_msg = ''ERROR: An unexpected error occurred: '' @ exn_str e
           in Inr \<lparr>metadata =
                     [''date'' \<mapsto> PStr (isoformat (naive (now_report rt))),
                      ''error'' \<mapsto> PStr error_msg],
                   commits = []\<rparr>))"

section \<open>A reference parser and a small server, for the examples\<close>

text \<open>
  The program takes \<open>datetime.fromisoformat\<close> from the runtime, and the theorems below
  hold for any parser. For the concrete examples, \<open>fromisoformat_ref\<close> reads the strings
  \<open>YYYY-MM-DD?HH:MM:SS[.fff[fff]][+HH:MM]\<close> (any separator character at \<open>?\<close>), on which
  every version of Python from 3.7 on agrees, and rejects every other string.
\<close>

definition digit_value :: "char \<Rightarrow> nat option" where
  "digit_value c =
     map_of [(CHR ''0'', 0), (CHR ''1'', 1), (CHR ''2'', 2), (CHR ''3'', 3), (CHR ''4'', 4),
             (CHR ''5'', 5), (CHR ''6'', 6), (CHR ''7'', 7), (CHR ''8'', 8), (CHR ''9'', 9)] c"

fun digits_value :: "string \<Rightarrow> nat \<Rightarrow> nat option" where
  "digits_value [] acc = Some acc"
| "digits_value (c # cs) acc =
     (case digit_value c of None \<Rightarrow> None | Some d \<Rightarrow> digits_value cs (acc * 10 + d))"

definition parse_offset :: "string \<Rightarrow> int option option" where
  "parse_offset tz =
     (if tz = [] then Some None
      else if length tz = 6 \<and> (tz ! 0 = CHR ''+'' \<or> tz ! 0 = CHR ''-'') \<and> tz ! 3 = CHR '':''
      then (case (digits_value (take 2 (drop 1 tz)) 0, digits_value (drop 4 tz) 0) of
              (Some h, Some m) \<Rightarrow>
                (if h < 24 \<and> m < 60
                 then Some (Some ((if tz ! 0 = CHR ''-'' then - 1 else 1)
                                    * (int h * 3600 + int m * 60)))
                 else None)
            | _ \<Rightarrow> None)
      else None)"

definition parse_fraction :: "string \<Rightarrow> (nat \<times> string) option" where
  "parse_fraction rest =
     (case rest of
        [] \<Rightarrow> Some (0, [])
      | c # cs \<Rightarrow>
          (if c = CHR ''.''
           then (let frac = takeWhile (\<lambda>x. digit_value x \<noteq> None) cs
                 in (case digits_value frac 0 of
                       None \<Rightarrow> None
                     | Some v \<Rightarrow>
                         (if length frac = 6 then Some (v, drop 6 cs)
                          else if length frac = 3 then Some (v * 1000, drop 3 cs)
                          else None)))
           else Some (0, rest)))"

definition fromisoformat_ref :: "string \<Rightarrow> exn + datetime" where
  "fromisoformat_ref s =
     (let bad = Inl (ValueError (''Invalid isoformat string: '' @ s))
      in if length s < 19 then bad
         else
           (case (digits_value (take 4 s) 0, digits_value (take 2 (drop 5 s)) 0,
                  digits_value (take 2 (drop 8 s)) 0, digits_value (take 2 (drop 11 s)) 0,
                  digits_value (take 2 (drop 14 s)) 0, digits_value (take 2 (drop 17 s)) 0) of
              (Some y, Some mo, Some d, Some h, Some mi, Some se) \<Rightarrow>
                (if s ! 4 = CHR ''-'' \<and> s ! 7 = CHR ''-'' \<and> s ! 13 = CHR '':'' \<and> s ! 16 = CHR '':''
                    \<and> 1 \<le> y \<and> 1 \<le> mo \<and> mo \<le> 12 \<and> 1 \<le> d
                    \<and> int d \<le> days_in_month (int y) (int mo) \<and> h < 24 \<and> mi < 60 \<and> se < 60
                 then (case parse_fraction (drop 19 s) of
                         None \<Rightarrow> bad
                       | Some (us, tz) \<Rightarrow>
                           (case parse_offset tz of
                              None \<Rightarrow> bad
                            | Some off \<Rightarrow>
                                Inr \<lparr>ordinal = ymd2ord (int y) (int mo) (int d), hour = h,
                                     minute = mi, second = se, microsecond = us,
                                     utcoffset = off\<rparr>))
                 else bad)
            | _ \<Rightarrow> bad))"

text \<open>
  The words of the specification, "ISO-8601 with an explicit UTC offset", as a test on
  strings: the string ends in a sign, two digits, a colon and two digits.
\<close>

definition has_utc_offset :: "string \<Rightarrow> bool" where
  "has_utc_offset s =
     (6 \<le> length s \<and>
      (let tz = drop (length s - 6) s
       in (tz ! 0 = CHR ''+'' \<or> tz ! 0 = CHR ''-'') \<and>
          digit_value (tz ! 1) \<noteq> None \<and> digit_value (tz ! 2) \<noteq> None \<and>
          tz ! 3 = CHR '':'' \<and>
          digit_value (tz ! 4) \<noteq> None \<and> digit_value (tz ! 5) \<noteq> None))"

text \<open>
  A server with two projects and one user. Project 1 has three commits; the server
  refuses the \<open>since\<close>/\<open>until\<close> filters, so its commits are found by manual pagination.
  Project 2 cannot be fetched at all.
\<close>

definition demo_commit :: "string \<Rightarrow> string \<Rightarrow> obj" where
  "demo_commit cid c_at =
     [''id'' \<mapsto> PStr cid, ''short_id'' \<mapsto> PStr cid, ''title'' \<mapsto> PStr ''fix'',
      ''message'' \<mapsto> PStr ''fix things'', ''author_name'' \<mapsto> PStr ''Ann'',
      ''author_email'' \<mapsto> PStr ''ann@example.org'', ''created_at'' \<mapsto> PStr c_at]"

definition demo_project :: "int \<Rightarrow> string \<Rightarrow> obj" where
  "demo_project i pth =
     [''id'' \<mapsto> PInt i, ''name'' \<mapsto> PStr pth, ''path_with_namespace'' \<mapsto> PStr pth,
      ''web_url'' \<mapsto> PStr pth]"

definition demo_info :: "int \<Rightarrow> string \<Rightarrow> project_info" where
  "demo_info i pth =
     \<lparr>p_id = PInt i, p_name = PStr pth, p_path_with_namespace = PStr pth,
      p_visibility = PStr ''unknown'', p_web_url = PStr pth\<rparr>"

definition demo_user :: obj where
  "demo_user = [''id'' \<mapsto> PInt 7, ''username'' \<mapsto> PStr ''ann'', ''name'' \<mapsto> PStr ''Ann'']"

definition demo_gl :: gitlab where
  "demo_gl =
     \<lparr>user = [''username'' \<mapsto> PStr ''root'', ''is_admin'' \<mapsto> PBool True],
      projects_list_all_visibility = Inr [demo_project 1 ''g/alpha'', demo_project 2 ''g/beta''],
      projects_list_all = Inr [],
      projects_list_page = (\<lambda>page. Inr []),
      projects_get = (\<lambda>pid. if pid = PInt 2 then Inl (GitlabError ''500'') else Inr ()),
      commits_list_since_until = (\<lambda>pid since_str until_str. Inl (GitlabError ''400'')),
      commits_list_since = (\<lambda>pid since_str. Inl (GitlabError ''400'')),
      commits_list_page =
        (\<lambda>pid page.
           if pid = PInt 1 \<and> page = 1
           then Inr [demo_commit ''a1'' ''2024-01-15T09:00:00'',
                     demo_commit ''a2'' ''2024-01-10T09:00:00'',
                     demo_commit ''a3'' ''2024-01-15T10:00:00'']
           else Inr []),
      commits_get = (\<lambda>pid cid. Inr ()),
      commit_diff = (\<lambda>pid cid. Inr [[''new_path'' \<mapsto> PStr ''a.py'', ''a_mode'' \<mapsto> PStr ''0'']]),
      users_list_page =
        (\<lambda>page per_page. if page = 1 then Inr ([demo_user], Some (PInt 250)) else Inr ([], None)),
      users_list_all = Inr [demo_user]\<rparr>"

definition demo_now :: datetime where
  "demo_now = \<lparr>ordinal = 738900, hour = 10, minute = 30, second = 0, microsecond = 0,
               utcoffset = None\<rparr>"

definition demo_rt :: runtime where
  "demo_rt =
     \<lparr>connect = (\<lambda>url token. if token = ''secret'' then Inr demo_gl
                              else Inl (GitlabError ''401 Unauthorized'')),
      now_fetch = demo_now,
      now_report = demo_now\<lparr>second := 5\<rparr>,
      cpu_count = Some 4,
      fromisoformat = fromisoformat_ref,
      users_completion = (\<lambda>n. rev [0..<n]),
      projects_completion = (\<lambda>n. rev [0..<n])\<rparr>"

section \<open>Properties of filter_diff_data\<close>

lemma dom_filtered_item:
  "dom (filtered_item d) =
     {''new_path'', ''old_path''} \<union> (if ''new_file'' \<in> dom d then {''new_file''} else {})"
  by (auto simp: filtered_item_def Let_def split: option.splits if_splits)

lemma filtered_item_new_file: "filtered_item d ''new_file'' = d ''new_file''"
  by (simp add: filtered_item_def Let_def split: option.splits)

lemma filtered_item_new_path:
  "filtered_item d ''new_path'' = Some (case d ''new_path'' of None \<Rightarrow> PStr [] | Some v \<Rightarrow> v)"
  by (simp add: filtered_item_def Let_def split: option.splits)

lemma filtered_item_old_path:
  "filtered_item d ''old_path'' = Some (case d ''old_path'' of None \<Rightarrow> PStr [] | Some v \<Rightarrow> v)"
  by (simp add: filtered_item_def Let_def split: option.splits)

lemma length_filter_diff_data: "length (filter_diff_data raw) = length raw"
  by (induction raw) simp_all

lemma nth_filter_diff_data:
  "i < length raw \<Longrightarrow> filter_diff_data raw ! i = filtered_item (raw ! i)"
proof (induction raw arbitrary: i)
  case Nil
  then show ?case by simp
next
  case (Cons d ds)
  then show ?case by (cases i) simp_all
qed

text \<open>
  Claim C5. Every entry of the filtered diff has no key other than \<open>new_path\<close>, \<open>old_path\<close>
  and \<open>new_file\<close>; \<open>new_path\<close> and \<open>old_path\<close> are always present; \<open>new_file\<close> is present
  exactly when the source entry at the same position has it, and then with the source's
  value (it is never defaulted).
\<close>

theorem filter_diff_data_keys:
  "length (filter_diff_data raw) = length raw \<and>
   (\<forall>i < length raw.
      dom (filter_diff_data raw ! i) \<subseteq> {''new_path'', ''old_path'', ''new_file''} \<and>
      ''new_path'' \<in> dom (filter_diff_data raw ! i) \<and>
      ''old_path'' \<in> dom (filter_diff_data raw ! i) \<and>
      (''new_file'' \<in> dom (filter_diff_data raw ! i) \<longleftrightarrow> ''new_file'' \<in> dom (raw ! i)) \<and>
      (filter_diff_data raw ! i) ''new_file'' = (raw ! i) ''new_file'')"
proof (intro conjI allI impI)
  show "length (filter_diff_data raw) = length raw"
    by (rule length_filter_diff_data)
next
  fix i assume i: "i < length raw"
  have eq: "filter_diff_data raw ! i = filtered_item (raw ! i)"
    using i by (rule nth_filter_diff_data)
  show "dom (filter_diff_data raw ! i) \<subseteq> {''new_path'', ''old_path'', ''new_file''}"
    unfolding eq dom_filtered_item by auto
  show "''new_path'' \<in> dom (filter_diff_data raw ! i)"
    unfolding eq dom_filtered_item by simp
  show "''old_path'' \<in> dom (filter_diff_data raw ! i)"
    unfolding eq dom_filtered_item by simp
  show "(''new_file'' \<in> dom (filter_diff_data raw ! i)) = (''new_file'' \<in> dom (raw ! i))"
    unfolding eq dom_filtered_item by simp
  show "(filter_diff_data raw ! i) ''new_file'' = (raw ! i) ''new_file''"
    unfolding eq by (rule filtered_item_new_file)
qed

theorem filter_diff_data_keys_witness:
  "(0::nat) < length [[''new_path'' \<mapsto> PStr ''a.py'', ''diff'' \<mapsto> PStr ''@@ -1 +1 @@'',
                        ''deleted_file'' \<mapsto> PBool False]] \<and>
   dom (filter_diff_data [[''new_path'' \<mapsto> PStr ''a.py'', ''diff'' \<mapsto> PStr ''@@ -1 +1 @@'',
                           ''deleted_file'' \<mapsto> PBool False]] ! 0)
     \<subseteq> {''new_path'', ''old_path'', ''new_file''} \<and>
   ''new_file'' \<notin> dom (filter_diff_data [[''new_path'' \<mapsto> PStr ''a.py'',
                           ''diff'' \<mapsto> PStr ''@@ -1 +1 @@'', ''deleted_file'' \<mapsto> PBool False]] ! 0)"
  using filter_diff_data_keys
    [of "[[''new_path'' \<mapsto> PStr ''a.py'', ''diff'' \<mapsto> PStr ''@@ -1 +1 @@'',
           ''deleted_file'' \<mapsto> PBool False]]"]
  by simp

text \<open>
  Claim C10. The filtered diff has exactly the length of the input (no entry is dropped),
  and where a source entry lacks \<open>new_path\<close> (or \<open>old_path\<close>) the output entry has that key
  with the empty string as its value.
\<close>

theorem filter_diff_data_length_defaults:
  "length (filter_diff_data raw) = length raw \<and>
   (\<forall>i < length raw.
      (''new_path'' \<notin> dom (raw ! i) \<longrightarrow> (filter_diff_data raw ! i) ''new_path'' = Some (PStr [])) \<and>
      (''old_path'' \<notin> dom (raw ! i) \<longrightarrow> (filter_diff_data raw ! i) ''old_path'' = Some (PStr [])) \<and>
      (\<forall>v. (raw ! i) ''new_path'' = Some v \<longrightarrow> (filter_diff_data raw ! i) ''new_path'' = Some v) \<and>
      (\<forall>v. (raw ! i) ''old_path'' = Some v \<longrightarrow> (filter_diff_data raw ! i) ''old_path'' = Some v))"
proof (intro conjI allI impI)
  show "length (filter_diff_data raw) = length raw"
    by (rule length_filter_diff_data)
next
  fix i assume i: "i < length raw"
  have eq: "filter_diff_data raw ! i = filtered_item (raw ! i)"
    using i by (rule nth_filter_diff_data)
  { assume "''new_path'' \<notin> dom (raw ! i)"
    then show "(filter_diff_data raw ! i) ''new_path'' = Some (PStr [])"
      unfolding eq filtered_item_new_path by (auto split: option.splits) }
  { assume "''old_path'' \<notin> dom (raw ! i)"
    then show "(filter_diff_data raw ! i) ''old_path'' = Some (PStr [])"
      unfolding eq filtered_item_old_path by (auto split: option.splits) }
  { fix v assume "(raw ! i) ''new_path'' = Some v"
    then show "(filter_diff_data raw ! i) ''new_path'' = Some v"
      unfolding eq filtered_item_new_path by simp }
  { fix v assume "(raw ! i) ''old_path'' = Some v"
    then show "(filter_diff_data raw ! i) ''old_path'' = Some v"
      unfolding eq filtered_item_old_path by simp }
qed

theorem filter_diff_data_length_defaults_witness:
  "length (filter_diff_data [[''old_path'' \<mapsto> PStr ''b.py''], Map.empty]) = 2 \<and>
   (0::nat) < length [[''old_path'' \<mapsto> PStr ''b.py''], Map.empty :: pydict] \<and>
   ''new_path'' \<notin> dom ([[''old_path'' \<mapsto> PStr ''b.py''], Map.empty :: pydict] ! 0) \<and>
   (filter_diff_data [[''old_path'' \<mapsto> PStr ''b.py''], Map.empty] ! 0) ''new_path'' = Some (PStr []) \<and>
   (filter_diff_data [[''old_path'' \<mapsto> PStr ''b.py''], Map.empty] ! 0) ''old_path''
     = Some (PStr ''b.py'')"
proof -
  let ?diff = "[[''old_path'' \<mapsto> PStr ''b.py''], Map.empty :: pydict]"
  have len: "(0::nat) < length ?diff" by simp
  have absent: "''new_path'' \<notin> dom (?diff ! 0)" by simp
  have present: "(?diff ! 0) ''old_path'' = Some (PStr ''b.py'')" by simp
  note inst = filter_diff_data_length_defaults [of ?diff]
  from inst have l: "length (filter_diff_data ?diff) = length ?diff" by (rule conjunct1)
  from inst len have at0:
    "(''new_path'' \<notin> dom (?diff ! 0) \<longrightarrow> (filter_diff_data ?diff ! 0) ''new_path'' = Some (PStr [])) \<and>
     (''old_path'' \<notin> dom (?diff ! 0) \<longrightarrow> (filter_diff_data ?diff ! 0) ''old_path'' = Some (PStr [])) \<and>
     (\<forall>v. (?diff ! 0) ''new_path'' = Some v \<longrightarrow> (filter_diff_data ?diff ! 0) ''new_path'' = Some v) \<and>
     (\<forall>v. (?diff ! 0) ''old_path'' = Some v \<longrightarrow> (filter_diff_data ?diff ! 0) ''old_path'' = Some v)"
    by blast
  from at0 absent have a: "(filter_diff_data ?diff ! 0) ''new_path'' = Some (PStr [])" by blast
  from at0 present have b: "(filter_diff_data ?diff ! 0) ''old_path'' = Some (PStr ''b.py'')" by blast
  from l have l2: "length (filter_diff_data ?diff) = 2" by simp
  show ?thesis using l2 len absent a b by blast
qed

section \<open>The example server, evaluated\<close>

lemma demo_rt_fields:
  "cpu_count demo_rt = Some 4"
  "now_fetch demo_rt = demo_now"
  "projects_completion demo_rt n = rev [0..<n]"
  "users_completion demo_rt n = rev [0..<n]"
  "fromisoformat demo_rt = fromisoformat_ref"
  "connect demo_rt url ''secret'' = Inr demo_gl"
  "connect demo_rt url ''wrong'' = Inl (GitlabError ''401 Unauthorized'')"
  by (simp_all add: demo_rt_def)

lemma demo_client: "get_gitlab_client demo_rt url ''secret'' False = Inr demo_gl"
  by (simp add: get_gitlab_client_def demo_rt_fields)

lemma demo_projects:
  "get_all_projects demo_gl False = [demo_info 1 ''g/alpha'', demo_info 2 ''g/beta'']"
  by code_simp

lemma demo_users: "length (get_all_users demo_rt demo_gl False 0) = 1"
  by code_simp

lemma demo_range: "date_range demo_rt 1 = Inr (replace_midnight demo_now, demo_now)"
  by code_simp

lemma demo_beta:
  "get_project_commits demo_rt (demo_info 2 ''g/beta'') demo_gl start_date end_date False = []"
  by (simp add: get_project_commits_def demo_gl_def demo_info_def)

lemma demo_alpha:
  "map created_at
     (get_project_commits demo_rt (demo_info 1 ''g/alpha'') demo_gl
        (replace_midnight demo_now) demo_now False)
   = [PStr ''2024-01-15T09:00:00'', PStr ''2024-01-15T10:00:00'']"
  by code_simp

lemma rev_upt_2: "rev [0..<2] = [1, 0]"
  by code_simp

lemma demo_today:
  "get_today_commits demo_rt demo_gl [demo_info 1 ''g/alpha'', demo_info 2 ''g/beta''] 1 False 0
   = Inr (get_project_commits demo_rt (demo_info 2 ''g/beta'') demo_gl
            (replace_midnight demo_now) demo_now False
          @ get_project_commits demo_rt (demo_info 1 ''g/alpha'') demo_gl
            (replace_midnight demo_now) demo_now False)"
  by (simp add: get_today_commits_def demo_range bind_exn_def max_workers_def
      ThreadPoolExecutor_def as_completed_def demo_rt_fields rev_upt_2 Let_def)

lemma demo_run:
  "\<exists>r. get_commits_data_try demo_rt url ''secret'' 1 False 0 = Inr r \<and>
       commits r = get_project_commits demo_rt (demo_info 2 ''g/beta'') demo_gl
                     (replace_midnight demo_now) demo_now False
                   @ get_project_commits demo_rt (demo_info 1 ''g/alpha'') demo_gl
                     (replace_midnight demo_now) demo_now False"
  by (simp add: get_commits_data_try_def bind_exn_def Let_def demo_client demo_projects demo_today)

lemma demo_run_created:
  assumes "commits r = get_project_commits demo_rt (demo_info 2 ''g/beta'') demo_gl
                     (replace_midnight demo_now) demo_now False
                   @ get_project_commits demo_rt (demo_info 1 ''g/alpha'') demo_gl
                     (replace_midnight demo_now) demo_now False"
  shows "map created_at (commits r) = [PStr ''2024-01-15T09:00:00'', PStr ''2024-01-15T10:00:00'']"
  unfolding assms map_append demo_beta demo_alpha by simp

lemma demo_auth_fails:
  "get_commits_data_try demo_rt url ''wrong'' 1 False 0 = Inl (GitlabError ''401 Unauthorized'')"
  by (simp add: get_commits_data_try_def bind_exn_def get_gitlab_client_def demo_rt_fields)

section \<open>Properties of get_commits_data\<close>




lemma get_commits_data_try_success:
  assumes "get_commits_data_try rt url token days debug threads = Inr r"
  shows "\<exists>gl. get_gitlab_client rt url token debug = Inr gl \<and>
           get_today_commits rt gl (get_all_projects gl debug) days debug threads = Inr (commits r) \<and>
           metadata r =
             [''date'' \<mapsto> PStr (isoformat (naive (now_report rt))),
              ''gitlab_url'' \<mapsto> PStr url,
              ''days_included'' \<mapsto> PInt days,
              ''projects_count'' \<mapsto> PInt (int (length (get_all_projects gl debug))),
              ''users_count'' \<mapsto> PInt (int (length (get_all_users rt gl debug threads))),
              ''commits_count'' \<mapsto> PInt (int (length (commits r)))]"
proof (cases "get_gitlab_client rt url token debug")
  case (Inl e)
  with assms show ?thesis by (simp add: get_commits_data_try_def bind_exn_def)
next
  case gl: (Inr gl)
  show ?thesis
  proof (cases "get_today_commits rt gl (get_all_projects gl debug) days debug threads")
    case (Inl e)
    with assms gl show ?thesis by (simp add: get_commits_data_try_def bind_exn_def Let_def)
  next
    case (Inr cs)
    with assms gl show ?thesis
      by (auto simp add: get_commits_data_try_def bind_exn_def Let_def)
  qed
qed



text \<open>
  Claim C2. In the report of a successful run, \<open>projects_count\<close> is the length of the list
  that \<open>get_all_projects\<close> returned, \<open>users_count\<close> the length of the list that
  \<open>get_all_users\<close> returned, and \<open>commits_count\<close> the length of the \<open>commits\<close> of the
  same report.
\<close>

theorem report_counts:
  assumes "get_commits_data_try rt url token days debug threads = Inr r"
  shows "get_commits_data rt url token days debug threads = Inr r \<and>
         metadata r ''error'' = None \<and>
         (\<exists>gl. get_gitlab_client rt url token debug = Inr gl \<and>
            metadata r ''projects_count'' = Some (PInt (int (length (get_all_projects gl debug)))) \<and>
            metadata r ''users_count'' = Some (PInt (int (length (get_all_users rt gl debug threads)))) \<and>
            metadata r ''commits_count'' = Some (PInt (int (length (commits r)))))"
proof -
  from assms have res: "get_commits_data rt url token days debug threads = Inr r"
    by (simp add: get_commits_data_def)
  from get_commits_data_try_success [OF assms] obtain gl where
    gl: "get_gitlab_client rt url token debug = Inr gl"
    and md: "metadata r =
             [''date'' \<mapsto> PStr (isoformat (naive (now_report rt))),
              ''gitlab_url'' \<mapsto> PStr url,
              ''days_included'' \<mapsto> PInt days,
              ''projects_count'' \<mapsto> PInt (int (length (get_all_projects gl debug))),
              ''users_count'' \<mapsto> PInt (int (length (get_all_users rt gl debug threads))),
              ''commits_count'' \<mapsto> PInt (int (length (commits r)))]"
    by blast
  from md have "metadata r ''error'' = None"
    and "metadata r ''projects_count'' = Some (PInt (int (length (get_all_projects gl debug))))"
    and "metadata r ''users_count'' = Some (PInt (int (length (get_all_users rt gl debug threads))))"
    and "metadata r ''commits_count'' = Some (PInt (int (length (commits r))))"
    by simp_all
  with res gl show ?thesis by blast
qed

theorem report_counts_witness:
  "\<exists>r. get_commits_data_try demo_rt ''https://gitlab.example'' ''secret'' 1 False 0 = Inr r \<and>
       get_commits_data demo_rt ''https://gitlab.example'' ''secret'' 1 False 0 = Inr r \<and>
       metadata r ''projects_count'' = Some (PInt 2) \<and>
       metadata r ''users_count'' = Some (PInt 1) \<and>
       metadata r ''commits_count'' = Some (PInt 2) \<and>
       length (commits r) = 2"
proof -
  from demo_run [of "''https://gitlab.example''"] obtain r where
    run: "get_commits_data_try demo_rt ''https://gitlab.example'' ''secret'' 1 False 0 = Inr r"
    and cs: "commits r = get_project_commits demo_rt (demo_info 2 ''g/beta'') demo_gl
                     (replace_midnight demo_now) demo_now False
                   @ get_project_commits demo_rt (demo_info 1 ''g/alpha'') demo_gl
                     (replace_midnight demo_now) demo_now False"
    by (elim exE conjE)
  have "length (map created_at (commits r)) = 2"
    unfolding demo_run_created [OF cs] by simp
  then have len: "length (commits r) = 2" by simp
  note counts = report_counts [OF run]
  from counts have
    res: "get_commits_data demo_rt ''https://gitlab.example'' ''secret'' 1 False 0 = Inr r"
    by (rule conjunct1)
  from counts obtain gl where
    gl: "get_gitlab_client demo_rt ''https://gitlab.example'' ''secret'' False = Inr gl"
    and pc: "metadata r ''projects_count'' = Some (PInt (int (length (get_all_projects gl False))))"
    and uc: "metadata r ''users_count'' = Some (PInt (int (length (get_all_users demo_rt gl False 0))))"
    and cc: "metadata r ''commits_count'' = Some (PInt (int (length (commits r))))"
    by (elim exE conjE)
  from gl have gl_eq: "gl = demo_gl" unfolding demo_client by (rule Inr_inject [symmetric])
  have "length (get_all_projects demo_gl False) = 2" unfolding demo_projects by simp
  with pc have pc': "metadata r ''projects_count'' = Some (PInt 2)" unfolding gl_eq by simp
  from uc have uc': "metadata r ''users_count'' = Some (PInt 1)" unfolding gl_eq demo_users by simp
  from cc have cc': "metadata r ''commits_count'' = Some (PInt 2)" unfolding len by simp
  show ?thesis
    by (rule exI [of _ r]) (intro conjI run res pc' uc' cc' len)
qed

text \<open>
  Claim C9. The metadata of the failure report has the keys \<open>date\<close> and \<open>error\<close> and no
  other: \<open>gitlab_url\<close>, \<open>days_included\<close> and the three counts, which the metadata of
  every successful report has, are absent.
\<close>

theorem report_keys:
  "(\<forall>e. get_commits_data_try rt url token days debug threads = Inl e \<longrightarrow>
      (\<exists>r. get_commits_data rt url token days debug threads = Inr r \<and>
           dom (metadata r) = {''date'', ''error''})) \<and>
   (\<forall>r. get_commits_data_try rt url token days debug threads = Inr r \<longrightarrow>
      get_commits_data rt url token days debug threads = Inr r \<and>
      dom (metadata r) = {''date'', ''gitlab_url'', ''days_included'', ''projects_count'',
                          ''users_count'', ''commits_count''})"
proof (intro conjI allI impI)
  fix e assume "get_commits_data_try rt url token days debug threads = Inl e"
  then have "get_commits_data rt url token days debug threads =
      Inr \<lparr>metadata = [''date'' \<mapsto> PStr (isoformat (naive (now_report rt))),
                        ''error'' \<mapsto> PStr (''ERROR: An unexpected error occurred: '' @ exn_str e)],
           commits = []\<rparr>"
    by (simp add: get_commits_data_def Let_def)
  moreover have "dom [''date'' \<mapsto> PStr (isoformat (naive (now_report rt))),
                      ''error'' \<mapsto> PStr (''ERROR: An unexpected error occurred: '' @ exn_str e)]
                 = {''date'', ''error''}"
    by auto
  ultimately show "\<exists>r. get_commits_data rt url token days debug threads = Inr r \<and>
           dom (metadata r) = {''date'', ''error''}"
    by simp
next
  fix r assume ok: "get_commits_data_try rt url token days debug threads = Inr r"
  then show "get_commits_data rt url token days debug threads = Inr r"
    by (simp add: get_commits_data_def)
  from get_commits_data_try_success [OF ok] obtain gl where
    md: "metadata r =
             [''date'' \<mapsto> PStr (isoformat (naive (now_report rt))),
              ''gitlab_url'' \<mapsto> PStr url,
              ''days_included'' \<mapsto> PInt days,
              ''projects_count'' \<mapsto> PInt (int (length (get_all_projects gl debug))),
              ''users_count'' \<mapsto> PInt (int (length (get_all_users rt gl debug threads))),
              ''commits_count'' \<mapsto> PInt (int (length (commits r)))]"
    by blast
  show "dom (metadata r) = {''date'', ''gitlab_url'', ''days_included'', ''projects_count'',
                          ''users_count'', ''commits_count''}"
    unfolding md by auto
qed

theorem report_keys_witness:
  "(\<exists>r. get_commits_data demo_rt ''https://gitlab.example'' ''wrong'' 1 False 0 = Inr r \<and>
        dom (metadata r) = {''date'', ''error''}) \<and>
   (\<exists>r. get_commits_data demo_rt ''https://gitlab.example'' ''secret'' 1 False 0 = Inr r \<and>
        dom (metadata r) = {''date'', ''gitlab_url'', ''days_included'', ''projects_count'',
                            ''users_count'', ''commits_count''})"
proof (rule conjI)
  note keys = report_keys [of demo_rt "''https://gitlab.example''" "''wrong''" 1 False 0,
      THEN conjunct1, rule_format]
  show "\<exists>r. get_commits_data demo_rt ''https://gitlab.example'' ''wrong'' 1 False 0 = Inr r \<and>
        dom (metadata r) = {''date'', ''error''}"
    by (rule keys) (rule demo_auth_fails)
next
  from demo_run [of "''https://gitlab.example''"] obtain r where
    run: "get_commits_data_try demo_rt ''https://gitlab.example'' ''secret'' 1 False 0 = Inr r"
    by (elim exE conjE)
  note keys = report_keys [of demo_rt "''https://gitlab.example''" "''secret''" 1 False 0,
      THEN conjunct2, rule_format, OF run]
  show "\<exists>r. get_commits_data demo_rt ''https://gitlab.example'' ''secret'' 1 False 0 = Inr r \<and>
        dom (metadata r) = {''date'', ''gitlab_url'', ''days_included'', ''projects_count'',
                            ''users_count'', ''commits_count''}"
    by (rule exI [of _ r]) (rule keys)
qed

section \<open>Properties of the date range\<close>








section \<open>Properties of get_all_users\<close>








section \<open>Properties of the manual-pagination fallback\<close>

lemma datetime_le_naive:
  assumes "datetime_le a b = Inr True"
  shows "utcoffset a = None \<longleftrightarrow> utcoffset b = None"
    and "utcoffset a = None \<Longrightarrow> micros a \<le> micros b"
  using assms by (auto simp add: datetime_le_def split: option.splits)

lemma in_window_True:
  assumes "in_window rt start_date end_date commit = Inr True"
  shows "\<exists>s commit_date.
           commit ''created_at'' = Some (PStr s) \<and>
           fromisoformat rt (replace_Z s) = Inr commit_date \<and>
           datetime_le start_date commit_date = Inr True \<and>
           datetime_le commit_date end_date = Inr True"
proof (cases "commit ''created_at''")
  case None
  with assms show ?thesis by (simp add: in_window_def)
next
  case (Some v)
  show ?thesis
  proof (cases v)
    case (PStr s)
    show ?thesis
    proof (cases "fromisoformat rt (replace_Z s)")
      case (Inl e)
      with assms Some PStr show ?thesis by (simp add: in_window_def bind_exn_def)
    next
      case d: (Inr commit_date)
      show ?thesis
      proof (cases "datetime_le start_date commit_date")
        case (Inl e)
        with assms Some PStr d show ?thesis by (simp add: in_window_def bind_exn_def)
      next
        case (Inr lower)
        with assms Some PStr d have "lower" and "datetime_le commit_date end_date = Inr True"
          by (auto simp add: in_window_def bind_exn_def split: if_splits)
        with Some PStr d Inr show ?thesis by simp
      qed
    qed
  qed (use assms Some in \<open>simp_all add: in_window_def\<close>)
qed

lemma scan_batch_kept:
  assumes "\<forall>c \<in> set acc. in_window rt start_date end_date c = Inr True"
  shows "\<forall>c \<in> set (fst (scan_batch rt start_date end_date acc batch)).
           in_window rt start_date end_date c = Inr True"
  using assms
proof (induction batch arbitrary: acc)
  case Nil
  then show ?case by simp
next
  case (Cons commit batch)
  show ?case
  proof (cases "in_window rt start_date end_date commit")
    case (Inl e)
    with Cons.prems show ?thesis by simp
  next
    case (Inr keep)
    have "\<forall>c \<in> set (if keep then acc @ [commit] else acc).
            in_window rt start_date end_date c = Inr True"
      using Cons.prems Inr by auto
    from Cons.IH [OF this] Inr show ?thesis by simp
  qed
qed

lemma manual_pagination_kept:
  assumes "\<forall>c \<in> set acc. in_window rt start_date end_date c = Inr True"
  shows "\<forall>c \<in> set (manual_pagination rt gl project_id start_date end_date page acc).
           in_window rt start_date end_date c = Inr True"
  using assms
proof (induction rt gl project_id start_date end_date page acc
    rule: manual_pagination.induct)
  case (1 rt gl project_id start_date end_date page acc)
  show ?case
  proof (cases "commits_list_page gl project_id page")
    case (Inl e)
    with "1.prems" show ?thesis by (simp add: manual_pagination.simps)
  next
    case (Inr batch)
    show ?thesis
    proof (cases "batch = []")
      case True
      with Inr "1.prems" show ?thesis by (simp add: manual_pagination.simps)
    next
      case False
      obtain acc' x where sb:
        "scan_batch rt start_date end_date acc batch = (acc', x)"
        by (cases "scan_batch rt start_date end_date acc batch")
      from scan_batch_kept [OF "1.prems", of batch] sb
      have kept: "\<forall>c \<in> set acc'. in_window rt start_date end_date c = Inr True"
        by simp
      show ?thesis
      proof (cases x)
        case (Some e)
        with Inr False sb kept show ?thesis by (simp add: manual_pagination.simps)
      next
        case None
        show ?thesis
        proof (cases "page + 1 > 10")
          case True
          with Inr False sb kept None show ?thesis by (simp add: manual_pagination.simps)
        next
          case more: False
          from "1.IH" [OF Inr False sb [symmetric] None more kept]
          have "\<forall>c \<in> set (manual_pagination rt gl project_id start_date end_date (page + 1) acc').
                  in_window rt start_date end_date c = Inr True" .
          with Inr False sb None more show ?thesis
            by (simp add: manual_pagination.simps [of rt gl project_id start_date end_date page])
        qed
      qed
    qed
  qed
qed


lemma manual_pagination_cap:
  assumes "\<forall>p. page \<le> p \<and> p \<le> 10 \<longrightarrow>
             commits_list_page gl' project_id p = commits_list_page gl project_id p"
    and "page \<le> 10"
  shows "manual_pagination rt gl' project_id start_date end_date page acc
         = manual_pagination rt gl project_id start_date end_date page acc"
  using assms
proof (induction rt gl project_id start_date end_date page acc
    rule: manual_pagination.induct)
  case (1 rt gl project_id start_date end_date page acc)
  from "1.prems" have same:
    "commits_list_page gl' project_id page = commits_list_page gl project_id page"
    by simp
  note unfold = manual_pagination.simps [of rt gl project_id start_date end_date page acc]
    manual_pagination.simps [of rt gl' project_id start_date end_date page acc]
  show ?case
  proof (cases "commits_list_page gl project_id page")
    case (Inl e)
    with same show ?thesis by (simp add: unfold)
  next
    case (Inr batch)
    show ?thesis
    proof (cases "batch = []")
      case True
      with Inr same show ?thesis by (simp add: unfold)
    next
      case False
      obtain acc' x where sb:
        "scan_batch rt start_date end_date acc batch = (acc', x)"
        by (cases "scan_batch rt start_date end_date acc batch")
      show ?thesis
      proof (cases x)
        case (Some e)
        with Inr False sb same show ?thesis by (simp add: unfold)
      next
        case None
        show ?thesis
        proof (cases "page + 1 > 10")
          case True
          with Inr False sb same None show ?thesis by (simp add: unfold)
        next
          case more: False
          from "1.prems" have agree':
            "\<forall>p. page + 1 \<le> p \<and> p \<le> 10 \<longrightarrow>
               commits_list_page gl' project_id p = commits_list_page gl project_id p"
            by simp
          from more have le: "page + 1 \<le> 10" by simp
          from "1.IH" [OF Inr False sb [symmetric] None more agree' le]
          have "manual_pagination rt gl' project_id start_date end_date (page + 1) acc'
                = manual_pagination rt gl project_id start_date end_date (page + 1) acc'" .
          with Inr False sb None more same show ?thesis by (simp add: unfold)
        qed
      qed
    qed
  qed
qed

lemma select_commits_fallback:
  assumes "commits_list_since_until gl project_id (isoformat start_date) (isoformat end_date) = Inl e1"
    and "commits_list_since gl project_id (isoformat start_date) = Inl e2"
  shows "select_commits rt gl project_id start_date end_date
         = manual_pagination rt gl project_id start_date end_date 1 []"
  using assms by (simp add: select_commits_def Let_def)

text \<open>
  Claim C6. When both filtered listings fail, the commits that \<open>get_project_commits\<close>
  goes on with are those of the manual pagination, which reads at most the pages 1 to 10.
  Every one of them has a string \<open>created_at\<close> that parses (after the replacement of
  \<open>Z\<close>) to a date with \<open>start_date <= commit_date <= end_date\<close>, both comparisons true; for
  the naive bounds that \<open>get_today_commits\<close> passes, the date is naive and lies between the
  bounds, inclusive.
\<close>

theorem manual_pagination_window:
  assumes "commits_list_since_until gl project_id (isoformat start_date) (isoformat end_date) = Inl e1"
    and "commits_list_since gl project_id (isoformat start_date) = Inl e2"
  shows "select_commits rt gl project_id start_date end_date
           = manual_pagination rt gl project_id start_date end_date 1 [] \<and>
         (\<forall>commit \<in> set (select_commits rt gl project_id start_date end_date).
            \<exists>s commit_date.
              commit ''created_at'' = Some (PStr s) \<and>
              fromisoformat rt (replace_Z s) = Inr commit_date \<and>
              datetime_le start_date commit_date = Inr True \<and>
              datetime_le commit_date end_date = Inr True \<and>
              (utcoffset start_date = None \<longrightarrow>
                 utcoffset commit_date = None \<and>
                 micros start_date \<le> micros commit_date \<and>
                 micros commit_date \<le> micros end_date)) \<and>
         (\<forall>gl'. (\<forall>p. 1 \<le> p \<and> p \<le> 10 \<longrightarrow>
                    commits_list_page gl' project_id p = commits_list_page gl project_id p) \<longrightarrow>
                manual_pagination rt gl' project_id start_date end_date 1 []
                = manual_pagination rt gl project_id start_date end_date 1 [])"
proof (intro conjI ballI allI impI)
  show fb: "select_commits rt gl project_id start_date end_date
           = manual_pagination rt gl project_id start_date end_date 1 []"
    using assms by (rule select_commits_fallback)
  fix commit
  assume "commit \<in> set (select_commits rt gl project_id start_date end_date)"
  then have mem: "commit \<in> set (manual_pagination rt gl project_id start_date end_date 1 [])"
    unfolding fb .
  have "\<forall>c \<in> set (manual_pagination rt gl project_id start_date end_date 1 []).
          in_window rt start_date end_date c = Inr True"
    by (rule manual_pagination_kept) simp
  from this mem have "in_window rt start_date end_date commit = Inr True" by (rule bspec)
  from in_window_True [OF this] obtain s commit_date where
    c: "commit ''created_at'' = Some (PStr s)"
    and p: "fromisoformat rt (replace_Z s) = Inr commit_date"
    and lo: "datetime_le start_date commit_date = Inr True"
    and hi: "datetime_le commit_date end_date = Inr True"
    by (elim exE conjE)
  have "utcoffset start_date = None \<longrightarrow>
          utcoffset commit_date = None \<and>
          micros start_date \<le> micros commit_date \<and>
          micros commit_date \<le> micros end_date"
    using datetime_le_naive [OF lo] datetime_le_naive [OF hi] by simp
  with c p lo hi show "\<exists>s commit_date.
              commit ''created_at'' = Some (PStr s) \<and>
              fromisoformat rt (replace_Z s) = Inr commit_date \<and>
              datetime_le start_date commit_date = Inr True \<and>
              datetime_le commit_date end_date = Inr True \<and>
              (utcoffset start_date = None \<longrightarrow>
                 utcoffset commit_date = None \<and>
                 micros start_date \<le> micros commit_date \<and>
                 micros commit_date \<le> micros end_date)"
    by (intro exI conjI)
next
  fix gl' :: gitlab
  assume "\<forall>p. 1 \<le> p \<and> p \<le> 10 \<longrightarrow>
            commits_list_page gl' project_id p = commits_list_page gl project_id p"
  then show "manual_pagination rt gl' project_id start_date end_date 1 []
             = manual_pagination rt gl project_id start_date end_date 1 []"
    by (rule manual_pagination_cap) simp
qed

lemma demo_selected:
  "map (\<lambda>c. c ''created_at'')
     (select_commits demo_rt demo_gl (PInt 1) (replace_midnight demo_now) demo_now)
   = [Some (PStr ''2024-01-15T09:00:00''), Some (PStr ''2024-01-15T10:00:00'')]"
  by code_simp

theorem manual_pagination_window_witness:
  "commits_list_since_until demo_gl (PInt 1)
      (isoformat (replace_midnight demo_now)) (isoformat demo_now) = Inl (GitlabError ''400'') \<and>
   commits_list_since demo_gl (PInt 1) (isoformat (replace_midnight demo_now))
     = Inl (GitlabError ''400'') \<and>
   map (\<lambda>c. c ''created_at'')
     (select_commits demo_rt demo_gl (PInt 1) (replace_midnight demo_now) demo_now)
     = [Some (PStr ''2024-01-15T09:00:00''), Some (PStr ''2024-01-15T10:00:00'')] \<and>
   (\<exists>commit commit_date.
      commit \<in> set (select_commits demo_rt demo_gl (PInt 1) (replace_midnight demo_now) demo_now) \<and>
      commit ''created_at'' = Some (PStr ''2024-01-15T09:00:00'') \<and>
      fromisoformat demo_rt (replace_Z ''2024-01-15T09:00:00'') = Inr commit_date \<and>
      utcoffset commit_date = None \<and>
      micros (replace_midnight demo_now) \<le> micros commit_date \<and>
      micros commit_date \<le> micros demo_now)"
proof -
  let ?sel = "select_commits demo_rt demo_gl (PInt 1) (replace_midnight demo_now) demo_now"
  have f1: "commits_list_since_until demo_gl (PInt 1)
      (isoformat (replace_midnight demo_now)) (isoformat demo_now) = Inl (GitlabError ''400'')"
    by (simp add: demo_gl_def)
  have f2: "commits_list_since demo_gl (PInt 1) (isoformat (replace_midnight demo_now))
     = Inl (GitlabError ''400'')"
    by (simp add: demo_gl_def)
  have naive_start: "utcoffset (replace_midnight demo_now) = None"
    by (simp add: replace_midnight_def demo_now_def)
  from demo_selected obtain commit rest where sel: "?sel = commit # rest"
    by (cases ?sel) simp_all
  with demo_selected have c: "commit ''created_at'' = Some (PStr ''2024-01-15T09:00:00'')"
    by simp
  from sel have mem: "commit \<in> set ?sel" by simp
  note w = manual_pagination_window [OF f1 f2, of demo_rt, THEN conjunct2, THEN conjunct1,
      THEN bspec, OF mem]
  then obtain s commit_date where
    s: "commit ''created_at'' = Some (PStr s)"
    and p: "fromisoformat demo_rt (replace_Z s) = Inr commit_date"
    and n: "utcoffset (replace_midnight demo_now) = None \<longrightarrow>
                 utcoffset commit_date = None \<and>
                 micros (replace_midnight demo_now) \<le> micros commit_date \<and>
                 micros commit_date \<le> micros demo_now"
    by (elim exE conjE)
  from s c have s_eq: "s = ''2024-01-15T09:00:00''" by simp
  from n naive_start have b: "utcoffset commit_date = None"
    "micros (replace_midnight demo_now) \<le> micros commit_date"
    "micros commit_date \<le> micros demo_now"
    by simp_all
  from p have p': "fromisoformat demo_rt (replace_Z ''2024-01-15T09:00:00'') = Inr commit_date"
    unfolding s_eq .
  have "\<exists>commit commit_date.
      commit \<in> set ?sel \<and>
      commit ''created_at'' = Some (PStr ''2024-01-15T09:00:00'') \<and>
      fromisoformat demo_rt (replace_Z ''2024-01-15T09:00:00'') = Inr commit_date \<and>
      utcoffset commit_date = None \<and>
      micros (replace_midnight demo_now) \<le> micros commit_date \<and>
      micros commit_date \<le> micros demo_now"
    by (rule exI [of _ commit], rule exI [of _ commit_date]) (intro conjI mem c p' b)
  with f1 f2 demo_selected show ?thesis by (intro conjI)
qed

end
